theory Spec2Isabelle
  imports Complex_Main "HOL-Library.AList"
begin

section \<open>The game client of \<open>src/game.js\<close>\<close>

text \<open>
  \<open>src/game.js\<close> holds three revisions of the class \<open>GameClient\<close>. The development
  follows the fullest one (lines 381--900: network, keyboard, click-to-move, game loop);
  where another revision is modelled, the definition says so. JavaScript numbers are
  modelled as real numbers (no rounding, no infinities); a number that may be \<open>NaN\<close> is
  a \<open>number\<close>, and where the source divides by a number that may be zero, the model
  writes out what JavaScript does there.
  JavaScript objects used as dictionaries (\<open>this.players\<close>, \<open>this.avatars\<close>) are
  association lists of their own properties in insertion order: \<open>o[k] = v\<close> is
  \<open>AList.update\<close>, \<open>delete o[k]\<close> is \<open>AList.delete\<close>, and the read \<open>o[k]\<close> is
  \<open>lookup\<close>, which also finds what the object inherits from \<open>Object.prototype\<close>.
  A \<open>for ... in\<close> loop visits the list in its order (JavaScript visits keys that are array
  indices first; no statement below depends on the order of a loop). An assignment under
  the name \<open>__proto__\<close> to an object without an own property of that name would replace
  the object's prototype; the model follows no replaced prototype and treats that name,
  in an assignment, like any other.
\<close>

subsection \<open>Numbers that may be NaN\<close>

text \<open>\<open>None\<close> is \<open>NaN\<close>. Arithmetic, \<open>Math.abs\<close>, \<open>Math.sqrt\<close>, \<open>Math.min\<close> and
  \<open>Math.max\<close> give \<open>NaN\<close> when an argument is \<open>NaN\<close>; every comparison with \<open>NaN\<close> is
  false.\<close>

type_synonym number = "real option"

fun lift2 :: "(real \<Rightarrow> real \<Rightarrow> real) \<Rightarrow> number \<Rightarrow> number \<Rightarrow> number" where
  "lift2 f (Some a) (Some b) = Some (f a b)"
| "lift2 f _ _ = None"

definition num_add :: "number \<Rightarrow> number \<Rightarrow> number" where
  "num_add = lift2 (\<lambda>a b. a + b)"

definition num_sub :: "number \<Rightarrow> number \<Rightarrow> number" where
  "num_sub = lift2 (\<lambda>a b. a - b)"

definition num_mul :: "number \<Rightarrow> number \<Rightarrow> number" where
  "num_mul = lift2 (\<lambda>a b. a * b)"

definition math_min :: "number \<Rightarrow> number \<Rightarrow> number" where
  "math_min = lift2 min"

definition math_max :: "number \<Rightarrow> number \<Rightarrow> number" where
  "math_max = lift2 max"

definition num_neg :: "number \<Rightarrow> number" where
  "num_neg = map_option uminus"

definition num_half :: "number \<Rightarrow> number" where
  "num_half = map_option (\<lambda>a. a / 2)"

definition math_abs :: "number \<Rightarrow> number" where
  "math_abs = map_option abs"

definition math_sqrt :: "number \<Rightarrow> number" where
  "math_sqrt = map_option sqrt"

fun num_lt :: "number \<Rightarrow> number \<Rightarrow> bool" where
  "num_lt (Some a) (Some b) = (a < b)"
| "num_lt _ _ = False"

fun num_le :: "number \<Rightarrow> number \<Rightarrow> bool" where
  "num_le (Some a) (Some b) = (a \<le> b)"
| "num_le _ _ = False"

definition num_gt :: "number \<Rightarrow> number \<Rightarrow> bool" where
  "num_gt a b = num_lt b a"


subsection \<open>Data\<close>

datatype facing = North | South | East | West

text \<open>A player object as the server sends it; field \<open>p_x\<close> is the source's \<open>player.x\<close>.\<close>

record player =
  p_id :: string
  p_x :: real
  p_y :: real
  p_facing :: facing
  p_animationFrame :: nat
  p_username :: string
  p_avatar :: string

text \<open>An \<open>Image\<close> object: its source and its size, which is 0 by 0 until it has loaded.\<close>

record image =
  img_src :: string
  img_width :: nat
  img_height :: nat

text \<open>The three keys \<open>north\<close>, \<open>south\<close>, \<open>east\<close> of \<open>avatar.frames\<close> and of
  \<open>avatar.parsedFrames\<close>; there is no key \<open>west\<close>.\<close>

record 'a frameset =
  north :: "'a list"
  south :: "'a list"
  east :: "'a list"

record avatar =
  a_name :: string
  frames :: "string frameset"
  parsedFrames :: "image frameset option"

datatype readyState = CONNECTING | OPEN | CLOSING | CLOSED

datatype connectionStatus = connecting | connected | disconnected | error

text \<open>The fields the constructor sets (lines 382--409). \<open>websocket\<close> is \<open>None\<close> for
  \<open>null\<close>, otherwise the socket's \<open>readyState\<close>; \<open>canvas_width\<close> and
  \<open>canvas_height\<close> are \<open>this.canvas.width\<close> and \<open>this.canvas.height\<close>.\<close>

record state =
  canvas_width :: real
  canvas_height :: real
  worldImage :: "image option"
  worldWidth :: real
  worldHeight :: real
  myPlayerId :: "string option"
  players :: "(string \<times> player) list"
  avatars :: "(string \<times> avatar) list"
  websocket :: "readyState option"
  cameraX :: number
  cameraY :: number
  keysPressed :: "string set"
  isMoving :: bool
  clickTarget :: "(number \<times> number) option"
  connectionStatus :: connectionStatus
  lastFrameTime :: real
  targetFPS :: real

subsection \<open>Reading a property\<close>

text \<open>What \<open>o[k]\<close> finds in an object made by \<open>{}\<close> or by \<open>JSON.parse\<close>: the object's own
  property; or, when it has none of that name, the member of that name that it inherits
  from \<open>Object.prototype\<close>, a function or an object and so truthy; or nothing
  (\<open>undefined\<close>).\<close>

datatype 'a member = Own 'a | Inherited | Absent

definition object_prototype :: "string list" where
  "object_prototype =
     [''constructor'', ''__defineGetter__'', ''__defineSetter__'', ''hasOwnProperty'',
      ''__lookupGetter__'', ''__lookupSetter__'', ''isPrototypeOf'', ''propertyIsEnumerable'',
      ''toString'', ''valueOf'', ''__proto__'', ''toLocaleString'']"

definition lookup :: "(string \<times> 'a) list \<Rightarrow> string \<Rightarrow> 'a member" where
  "lookup obj k =
     (case map_of obj k of
        Some v \<Rightarrow> Own v
      | None \<Rightarrow> if k \<in> set object_prototype then Inherited else Absent)"

subsection \<open>Camera\<close>

text \<open>What \<open>this.players[this.myPlayerId]\<close> is when the guard
  \<open>!this.myPlayerId || !this.players[this.myPlayerId]\<close> lets the caller go on, and
  \<open>Absent\<close> when the guard returns: the id is \<open>null\<close> or the empty string, or the read
  finds nothing.\<close>

definition myPlayer :: "state \<Rightarrow> player member" where
  "myPlayer s =
     (case myPlayerId s of
        None \<Rightarrow> Absent
      | Some i \<Rightarrow> if i = [] then Absent else lookup (players s) i)"

text \<open>\<open>myPlayer.x\<close> and \<open>myPlayer.y\<close> as numbers: an inherited member has neither, and
  \<open>undefined\<close> in arithmetic is \<open>NaN\<close>.\<close>

fun member_x :: "player member \<Rightarrow> number" where
  "member_x (Own p) = Some (p_x p)"
| "member_x _ = None"

fun member_y :: "player member \<Rightarrow> number" where
  "member_y (Own p) = Some (p_y p)"
| "member_y _ = None"

text \<open>\<open>updateCamera\<close>, lines 721--737.\<close>

definition updateCamera :: "state \<Rightarrow> state" where
  "updateCamera s =
     (if myPlayer s = Absent then s
      else
        let s1 = s\<lparr>cameraX := num_sub (member_x (myPlayer s)) (Some (canvas_width s / 2)),
                   cameraY := num_sub (member_y (myPlayer s)) (Some (canvas_height s / 2))\<rparr>;
            s2 = (if worldWidth s1 > canvas_width s1
                  then s1\<lparr>cameraX :=
                         math_max (Some 0)
                           (math_min (cameraX s1) (Some (worldWidth s1 - canvas_width s1)))\<rparr>
                  else s1);
            s3 = (if worldHeight s2 > canvas_height s2
                  then s2\<lparr>cameraY :=
                         math_max (Some 0)
                           (math_min (cameraY s2) (Some (worldHeight s2 - canvas_height s2)))\<rparr>
                  else s2)
        in s3)"

text \<open>\<open>worldToScreen\<close>, lines 739--744.\<close>

definition worldToScreen :: "state \<Rightarrow> number \<Rightarrow> number \<Rightarrow> number \<times> number" where
  "worldToScreen s worldX worldY = (num_sub worldX (cameraX s), num_sub worldY (cameraY s))"

subsection \<open>Outbound commands and effects\<close>

datatype direction = Up | Down | Left | Right

text \<open>The three outbound messages: \<open>{action: 'join_game', username}\<close>,
  \<open>{action: 'move', direction}\<close> and \<open>{action: 'stop'}\<close>.\<close>

datatype out_msg = Join_game string | Move direction | Stop

text \<open>The calls a \<open>canvas\<close> 2D context receives, in the order the source makes them;
  an argument that the source computes from the camera or from an image's size may be
  \<open>NaN\<close>. The two angles of \<open>Arc\<close> are in units of \<open>\<pi>\<close>, so that \<open>Math.PI * 2\<close> is 2.\<close>

datatype canvas_cmd =
    Save
  | Restore
  | SetTransform real real real real number number
  | Scale real real
  | DrawImage image number number number number
  | DrawImageSub image number number number number number number number number
  | ClearRect real real real real
  | FillStyle string
  | StrokeStyle string
  | LineWidth real
  | Font string
  | TextAlign string
  | StrokeText string number number
  | FillText string number number
  | SetLineDash "real list"
  | BeginPath
  | Arc number number real real real
  | MoveTo number number
  | LineTo number number
  | Stroke

text \<open>What a handler does to the world outside the client object: a message that
  leaves through the open socket, a timer for the homing step with its delay in
  milliseconds, a request for the next animation frame, an image whose decoding starts
  (avatar name, direction, index, data), a console line, the suppressed default action of
  a key event, and the canvas calls of one \<open>draw()\<close>.\<close>

datatype effect =
    Sent out_msg
  | SetTimeout nat
  | RequestAnimationFrame
  | NewImage string facing nat string
  | ConsoleError string
  | ConsoleLog string
  | PreventDefault
  | Frame "canvas_cmd list"

datatype js_error = TypeError | InvalidStateError

text \<open>A handler that may throw: \<open>Inl\<close> holds the exception and the state as the handler
  had left it when it threw.\<close>

type_synonym result = "js_error \<times> state + effect list \<times> state"

text \<open>\<open>this.websocket.send(text)\<close>. The socket is the browser's, not code of this
  repository; its interface (WHATWG WebSockets) is: \<open>send\<close> throws InvalidStateError
  while the socket is connecting, transmits while it is open, and discards the data
  without an exception while it is closing or closed. Calling \<open>send\<close> on \<open>null\<close> is a
  TypeError.\<close>

definition ws_send :: "readyState option \<Rightarrow> out_msg \<Rightarrow> js_error + effect list" where
  "ws_send ws m =
     (case ws of
        None \<Rightarrow> Inl TypeError
      | Some CONNECTING \<Rightarrow> Inl InvalidStateError
      | Some OPEN \<Rightarrow> Inr [Sent m]
      | Some CLOSING \<Rightarrow> Inr []
      | Some CLOSED \<Rightarrow> Inr [])"

text \<open>The guard \<open>!this.websocket || this.websocket.readyState !== WebSocket.OPEN\<close>.\<close>

definition not_open :: "state \<Rightarrow> bool" where
  "not_open s = (websocket s \<noteq> Some OPEN)"

text \<open>\<open>sendMoveCommand\<close>, lines 584--618. Behind the guard the socket is open, so every
  \<open>send\<close> transmits.\<close>

definition sendMoveCommand :: "state \<Rightarrow> effect list \<times> state" where
  "sendMoveCommand s =
     (if not_open s then ([], s)
      else
        let directions =
              (if ''ArrowUp'' \<in> keysPressed s then [Up] else []) @
              (if ''ArrowDown'' \<in> keysPressed s then [Down] else []) @
              (if ''ArrowLeft'' \<in> keysPressed s then [Left] else []) @
              (if ''ArrowRight'' \<in> keysPressed s then [Right] else [])
        in (map (\<lambda>direction. Sent (Move direction)) directions,
            if length directions > 0 then s\<lparr>isMoving := True\<rparr> else s))"

text \<open>\<open>sendStopCommand\<close>, lines 620--631.\<close>

definition sendStopCommand :: "state \<Rightarrow> effect list \<times> state" where
  "sendStopCommand s =
     (if not_open s then ([], s)
      else ([Sent Stop], s\<lparr>isMoving := False\<rparr>))"

definition arrow_keys :: "string list" where
  "arrow_keys = [''ArrowUp'', ''ArrowDown'', ''ArrowLeft'', ''ArrowRight'']"

text \<open>\<open>handleKeyDown\<close>, lines 553--567, on \<open>event.code\<close>.\<close>

definition handleKeyDown :: "string \<Rightarrow> state \<Rightarrow> effect list \<times> state" where
  "handleKeyDown code s =
     (if code \<notin> set arrow_keys then ([], s)
      else
        let s1 = s\<lparr>keysPressed := insert code (keysPressed s)\<rparr>;
            (out, s2) = sendMoveCommand s1
        in (PreventDefault # out, s2))"

text \<open>\<open>handleKeyUp\<close>, lines 569--582.\<close>

definition handleKeyUp :: "string \<Rightarrow> state \<Rightarrow> effect list \<times> state" where
  "handleKeyUp code s =
     (if code \<notin> set arrow_keys then ([], s)
      else
        let s1 = s\<lparr>keysPressed := keysPressed s - {code}\<rparr>
        in if keysPressed s1 = {} then sendStopCommand s1 else ([], s1))"

subsection \<open>Click-to-move\<close>

text \<open>\<open>startMovingToTarget\<close>, lines 513--551: one step of the homing loop. The
  \<open>send\<close> of the move message is not behind the guard.\<close>

definition startMovingToTarget :: "state \<Rightarrow> result" where
  "startMovingToTarget s =
     (case clickTarget s of
        None \<Rightarrow> Inr ([], s)
      | Some target \<Rightarrow>
          if myPlayer s = Absent then Inr ([], s)
          else
            let deltaX = num_sub (fst target) (member_x (myPlayer s));
                deltaY = num_sub (snd target) (member_y (myPlayer s));
                distance = math_sqrt (num_add (num_mul deltaX deltaX) (num_mul deltaY deltaY))
            in if num_lt distance (Some 20)
               then Inr (sendStopCommand (s\<lparr>clickTarget := None\<rparr>))
               else
                 let direction =
                       (if num_gt (math_abs deltaX) (math_abs deltaY)
                        then (if num_gt deltaX (Some 0) then Right else Left)
                        else (if num_gt deltaY (Some 0) then Down else Up))
                 in (case ws_send (websocket s) (Move direction) of
                       Inl e \<Rightarrow> Inl (e, s)
                     | Inr out \<Rightarrow> Inr (out @ [SetTimeout 200], s\<lparr>isMoving := True\<rparr>)))"

text \<open>\<open>sendClickMoveCommand\<close>, lines 503--511.\<close>

definition sendClickMoveCommand :: "number \<Rightarrow> number \<Rightarrow> state \<Rightarrow> result" where
  "sendClickMoveCommand x y s =
     (if not_open s then Inr ([], s)
      else startMovingToTarget (s\<lparr>clickTarget := Some (x, y)\<rparr>))"

text \<open>\<open>handleCanvasClick\<close>, lines 486--501, on \<open>event.clientX\<close>, \<open>event.clientY\<close> and the
  canvas rectangle's \<open>left\<close> and \<open>top\<close>.\<close>

definition handleCanvasClick :: "real \<Rightarrow> real \<Rightarrow> real \<Rightarrow> real \<Rightarrow> state \<Rightarrow> result" where
  "handleCanvasClick clientX clientY rect_left rect_top s =
     (let clickX = clientX - rect_left;
          clickY = clientY - rect_top;
          worldX = num_add (Some clickX) (cameraX s);
          worldY = num_add (Some clickY) (cameraY s);
          clampedX = math_max (Some 0) (math_min worldX (Some (worldWidth s)));
          clampedY = math_max (Some 0) (math_min worldY (Some (worldHeight s)))
      in sendClickMoveCommand clampedX clampedY
           (s\<lparr>clickTarget := Some (clampedX, clampedY)\<rparr>))"

subsection \<open>Inbound messages\<close>

text \<open>The parsed message, by its \<open>action\<close>: \<open>join_game\<close> with \<open>success\<close>, \<open>playerId\<close>,
  \<open>players\<close>, \<open>avatars\<close> and \<open>error\<close>; \<open>player_joined\<close> with \<open>player\<close> and \<open>avatar\<close>;
  \<open>players_moved\<close> with \<open>players\<close>; \<open>player_left\<close> with \<open>playerId\<close>; any other action.\<close>

datatype message =
    JoinGame bool string "(string \<times> player) list" "(string \<times> avatar) list" string
  | PlayerJoined player avatar
  | PlayersMoved "(string \<times> player) list"
  | PlayerLeft string
  | Unknown string

text \<open>\<open>new Image()\<close> with \<open>img.src = base64Data\<close>: nothing of it has loaded yet.\<close>

definition newImage :: "string \<Rightarrow> image" where
  "newImage base64Data = \<lparr>img_src = base64Data, img_width = 0, img_height = 0\<rparr>"

text \<open>The inner \<open>forEach\<close> of \<open>parseAvatarImages\<close>: one image per frame of a direction.\<close>

definition decodes :: "string \<Rightarrow> facing \<Rightarrow> string list \<Rightarrow> effect list" where
  "decodes avatarName direction datas =
     map (\<lambda>(index, base64Data). NewImage avatarName direction index base64Data)
       (enumerate 0 datas)"

text \<open>The body of the \<open>for\<close> loop of \<open>parseAvatarImages\<close> (lines 696--717) for one
  entry of \<open>this.avatars\<close>.\<close>

definition parseAvatar :: "string \<Rightarrow> avatar \<Rightarrow> effect list \<times> avatar" where
  "parseAvatar avatarName avatar =
     (case parsedFrames avatar of
        Some _ \<Rightarrow> ([], avatar)
      | None \<Rightarrow>
          (decodes avatarName North (north (frames avatar)) @
           decodes avatarName South (south (frames avatar)) @
           decodes avatarName East (east (frames avatar)),
           avatar\<lparr>parsedFrames :=
             Some \<lparr>north = map newImage (north (frames avatar)),
                   south = map newImage (south (frames avatar)),
                   east = map newImage (east (frames avatar))\<rparr>\<rparr>))"

text \<open>\<open>parseAvatarImages\<close>, lines 693--719.\<close>

definition parseAvatarImages :: "state \<Rightarrow> effect list \<times> state" where
  "parseAvatarImages s =
     (concat (map (\<lambda>(avatarName, avatar). fst (parseAvatar avatarName avatar)) (avatars s)),
      s\<lparr>avatars :=
          map (\<lambda>(avatarName, avatar). (avatarName, snd (parseAvatar avatarName avatar)))
            (avatars s)\<rparr>)"

text \<open>\<open>Object.assign(target, source)\<close>: every entry of the source is assigned to the
  target, in the source's order.\<close>

definition object_assign :: "(string \<times> 'a) list \<Rightarrow> (string \<times> 'a) list \<Rightarrow> (string \<times> 'a) list" where
  "object_assign target source = fold (\<lambda>(k, v). AList.update k v) source target"

text \<open>\<open>handleServerMessage\<close>, lines 658--691.\<close>

fun handleServerMessage :: "message \<Rightarrow> state \<Rightarrow> effect list \<times> state" where
  "handleServerMessage (JoinGame success playerId ps avs err) s =
     (if success
      then
        let s1 = s\<lparr>myPlayerId := Some playerId, players := ps, avatars := avs\<rparr>;
            (out, s2) = parseAvatarImages s1
        in (out, updateCamera s2)
      else ([ConsoleError (''Join game failed: '' @ err)], s))"
| "handleServerMessage (PlayerJoined p a) s =
     parseAvatarImages
       (s\<lparr>players := AList.update (p_id p) p (players s),
          avatars := AList.update (a_name a) a (avatars s)\<rparr>)"
| "handleServerMessage (PlayersMoved ps) s =
     ([], updateCamera (s\<lparr>players := object_assign (players s) ps\<rparr>))"
| "handleServerMessage (PlayerLeft playerId) s =
     ([], s\<lparr>players := AList.delete playerId (players s)\<rparr>)"
| "handleServerMessage (Unknown action) s =
     ([ConsoleLog (''Unknown message type: '' @ action)], s)"

subsection \<open>Drawing\<close>

text \<open>\<open>avatar.parsedFrames[direction]\<close>: \<open>undefined\<close> for \<open>west\<close>.\<close>

fun frames_of :: "'a frameset \<Rightarrow> facing \<Rightarrow> 'a list option" where
  "frames_of fs North = Some (north fs)"
| "frames_of fs South = Some (south fs)"
| "frames_of fs East = Some (east fs)"
| "frames_of fs West = None"

text \<open>\<open>frames[player.animationFrame]\<close>: \<open>undefined\<close> past the end of the array.\<close>

definition frame_at :: "'a list \<Rightarrow> nat \<Rightarrow> 'a option" where
  "frame_at fs i = (if i < length fs then Some (fs ! i) else None)"

text \<open>The size computation of \<open>drawAvatar\<close> (lines 766--776): \<open>avatarWidth\<close> and
  \<open>avatarHeight\<close>. The ratio \<open>avatarImg.width / avatarImg.height\<close> of an image of height
  0 is \<open>Infinity\<close> when the width is positive, which gives the size 32 by 0, and \<open>NaN\<close>
  when the width is 0 too, which gives the height 32 and the width \<open>NaN\<close>.\<close>

definition avatarSize :: "image \<Rightarrow> number \<times> number" where
  "avatarSize avatarImg =
     (let maxSize = 32 in
      if img_height avatarImg = 0
      then (if img_width avatarImg = 0 then (None, Some maxSize) else (Some maxSize, Some 0))
      else
        let aspectRatio = real (img_width avatarImg) / real (img_height avatarImg)
        in if aspectRatio > 1 then (Some maxSize, Some (maxSize / aspectRatio))
           else (Some (maxSize * aspectRatio), Some maxSize))"

text \<open>The username label of \<open>drawAvatar\<close>, lines 805--820.\<close>

definition drawLabel :: "player \<Rightarrow> number \<Rightarrow> number \<Rightarrow> number \<Rightarrow> canvas_cmd list" where
  "drawLabel p sx sy avatarHeight =
     (let textY = num_sub (num_sub sy (num_half avatarHeight)) (Some 5)
      in [Save, FillStyle ''white'', StrokeStyle ''black'', LineWidth 2, Font ''12px Arial'',
          TextAlign ''center'',
          StrokeText (p_username p) sx textY, FillText (p_username p) sx textY, Restore])"

text \<open>The culling test of \<open>drawAvatar\<close>, lines 753--756.\<close>

definition off_screen :: "state \<Rightarrow> number \<Rightarrow> number \<Rightarrow> bool" where
  "off_screen s sx sy =
     (num_lt sx (Some (- 50)) \<or> num_gt sx (Some (canvas_width s + 50)) \<or>
      num_lt sy (Some (- 50)) \<or> num_gt sy (Some (canvas_height s + 50)))"

text \<open>\<open>drawAvatar\<close>, lines 746--821. An inherited member under the avatar's name has no
  \<open>parsedFrames\<close>, so the function returns for it as for no avatar.\<close>

definition drawAvatar :: "state \<Rightarrow> player \<Rightarrow> canvas_cmd list" where
  "drawAvatar s p =
     (case lookup (avatars s) (p_avatar p) of
        Absent \<Rightarrow> []
      | Inherited \<Rightarrow> []
      | Own avatar \<Rightarrow>
          (case parsedFrames avatar of
             None \<Rightarrow> []
           | Some parsed \<Rightarrow>
               let (sx, sy) = worldToScreen s (Some (p_x p)) (Some (p_y p)) in
               if off_screen s sx sy then []
               else
                 let direction = (if p_facing p = West then East else p_facing p) in
                 (case frames_of parsed direction of
                    None \<Rightarrow> []
                  | Some fs \<Rightarrow>
                      (case frame_at fs (p_animationFrame p) of
                         None \<Rightarrow> []
                       | Some avatarImg \<Rightarrow>
                           let (avatarWidth, avatarHeight) = avatarSize avatarImg in
                           [Save] @
                           (if p_facing p = West
                            then [Save, SetTransform (- 1) 0 0 1 sx (Some 0),
                                  DrawImage avatarImg (num_half (num_neg avatarWidth))
                                    (num_sub sy (num_half avatarHeight))
                                    avatarWidth avatarHeight,
                                  Restore]
                            else [DrawImage avatarImg (num_sub sx (num_half avatarWidth))
                                    (num_sub sy (num_half avatarHeight))
                                    avatarWidth avatarHeight]) @
                           [Restore] @
                           drawLabel p sx sy avatarHeight))))"

text \<open>\<open>drawAvatar\<close> of the third revision of the class, lines 1087--1158: the frames are
  looked up under \<open>player.facing\<close> itself, and the mirror is a \<open>scale(-1, 1)\<close>.\<close>

definition drawAvatar_rev3 :: "state \<Rightarrow> player \<Rightarrow> canvas_cmd list" where
  "drawAvatar_rev3 s p =
     (case lookup (avatars s) (p_avatar p) of
        Absent \<Rightarrow> []
      | Inherited \<Rightarrow> []
      | Own avatar \<Rightarrow>
          (case parsedFrames avatar of
             None \<Rightarrow> []
           | Some parsed \<Rightarrow>
               let (sx, sy) = worldToScreen s (Some (p_x p)) (Some (p_y p)) in
               if off_screen s sx sy then []
               else
                 (case frames_of parsed (p_facing p) of
                    None \<Rightarrow> []
                  | Some fs \<Rightarrow>
                      (case frame_at fs (p_animationFrame p) of
                         None \<Rightarrow> []
                       | Some avatarImg \<Rightarrow>
                           let (avatarWidth, avatarHeight) = avatarSize avatarImg in
                           [Save] @
                           (if p_facing p = West
                            then [Scale (- 1) 1,
                                  DrawImage avatarImg
                                    (num_sub (num_neg sx) (num_half avatarWidth))
                                    (num_sub sy (num_half avatarHeight))
                                    avatarWidth avatarHeight]
                            else [DrawImage avatarImg (num_sub sx (num_half avatarWidth))
                                    (num_sub sy (num_half avatarHeight))
                                    avatarWidth avatarHeight]) @
                           [Restore] @
                           drawLabel p sx sy avatarHeight))))"

text \<open>\<open>drawClickTarget\<close>, lines 850--873.\<close>

definition drawClickTarget :: "state \<Rightarrow> number \<times> number \<Rightarrow> canvas_cmd list" where
  "drawClickTarget s target =
     (let (sx, sy) = worldToScreen s (fst target) (snd target)
      in [Save, StrokeStyle ''#00ff00'', LineWidth 3, SetLineDash [5, 5],
          BeginPath, Arc sx sy 15 0 2, Stroke,
          SetLineDash [], BeginPath,
          MoveTo (num_sub sx (Some 10)) sy, LineTo (num_add sx (Some 10)) sy,
          MoveTo sx (num_sub sy (Some 10)), LineTo sx (num_add sy (Some 10)),
          Stroke, Restore])"

text \<open>\<open>getConnectionStatusColor\<close>, lines 891--899.\<close>

fun getConnectionStatusColor :: "connectionStatus \<Rightarrow> string" where
  "getConnectionStatusColor connected = ''#00ff00''"
| "getConnectionStatusColor connecting = ''#ffff00''"
| "getConnectionStatusColor disconnected = ''#ff0000''"
| "getConnectionStatusColor error = ''#ff0000''"

text \<open>\<open>this.connectionStatus.toUpperCase()\<close>.\<close>

fun toUpperCase :: "connectionStatus \<Rightarrow> string" where
  "toUpperCase connecting = ''CONNECTING''"
| "toUpperCase connected = ''CONNECTED''"
| "toUpperCase disconnected = ''DISCONNECTED''"
| "toUpperCase error = ''ERROR''"

text \<open>\<open>drawUI\<close>, lines 875--889.\<close>

definition drawUI :: "state \<Rightarrow> canvas_cmd list" where
  "drawUI s =
     [Save, FillStyle (getConnectionStatusColor (connectionStatus s)), Font ''14px Arial'',
      FillText (''Connection: '' @ toUpperCase (connectionStatus s)) (Some 10) (Some 25)] @
     (if isMoving s then [FillStyle ''#ffff00'', FillText ''Moving...'' (Some 10) (Some 45)] else []) @
     [Restore]"

text \<open>\<open>draw\<close>, lines 823--848.\<close>

definition draw :: "state \<Rightarrow> canvas_cmd list" where
  "draw s =
     (case worldImage s of
        None \<Rightarrow> []
      | Some img \<Rightarrow>
          [ClearRect 0 0 (canvas_width s) (canvas_height s),
           DrawImageSub img (cameraX s) (cameraY s)
             (Some (canvas_width s)) (Some (canvas_height s))
             (Some 0) (Some 0) (Some (canvas_width s)) (Some (canvas_height s))] @
          (case clickTarget s of None \<Rightarrow> [] | Some target \<Rightarrow> drawClickTarget s target) @
          concat (map (\<lambda>(playerId, p). drawAvatar s p) (players s)) @
          drawUI s)"

subsection \<open>What the canvas shows\<close>

text \<open>The current transformation matrix \<open>(a, b, c, d, e, f)\<close> of the context maps the
  point \<open>(x, y)\<close> to \<open>(a x + c y + e, b x + d y + f)\<close>.\<close>

type_synonym matrix = "real \<times> real \<times> real \<times> real \<times> real \<times> real"

definition identity :: matrix where
  "identity = (1, 0, 0, 1, 0, 0)"

fun apply_matrix :: "matrix \<Rightarrow> real \<times> real \<Rightarrow> real \<times> real" where
  "apply_matrix (a, b, c, d, e, f) (x, y) = (a * x + c * y + e, b * x + d * y + f)"

text \<open>An image as it lands on the canvas: where the top left, the top right and the
  bottom left corner of the image are, in canvas pixels.\<close>

record placed =
  pl_img :: image
  top_left :: "real \<times> real"
  top_right :: "real \<times> real"
  bottom_left :: "real \<times> real"

definition place :: "matrix \<Rightarrow> image \<Rightarrow> real \<Rightarrow> real \<Rightarrow> real \<Rightarrow> real \<Rightarrow> placed" where
  "place m img dx dy dw dh =
     \<lparr>pl_img = img,
      top_left = apply_matrix m (dx, dy),
      top_right = apply_matrix m (dx + dw, dy),
      bottom_left = apply_matrix m (dx, dy + dh)\<rparr>"

text \<open>The canvas interface (HTML standard), for the calls that move or place an image:
  \<open>save\<close> pushes the matrix, \<open>restore\<close> pops it (and does nothing on an empty stack),
  \<open>setTransform\<close> replaces it, \<open>scale\<close> multiplies it, \<open>drawImage\<close> places the image's
  destination rectangle through it. A call with a \<open>NaN\<close> argument does nothing, and an
  image that has not loaded (its size is 0) is not drawn.\<close>

fun moved :: "matrix \<Rightarrow> real \<Rightarrow> real \<Rightarrow> real \<Rightarrow> real \<Rightarrow> number \<Rightarrow> number \<Rightarrow> matrix" where
  "moved m a b c d (Some e) (Some f) = (a, b, c, d, e, f)"
| "moved m a b c d _ _ = m"

fun drawn :: "matrix \<Rightarrow> image \<Rightarrow> number \<Rightarrow> number \<Rightarrow> number \<Rightarrow> number \<Rightarrow> placed list" where
  "drawn m img (Some dx) (Some dy) (Some dw) (Some dh) =
     (if img_width img = 0 \<or> img_height img = 0 then [] else [place m img dx dy dw dh])"
| "drawn m img _ _ _ _ = []"

fun render :: "canvas_cmd list \<Rightarrow> matrix \<Rightarrow> matrix list \<Rightarrow> placed list" where
  "render [] m stack = []"
| "render (cmd # cmds) m stack =
     (case cmd of
        Save \<Rightarrow> render cmds m (m # stack)
      | Restore \<Rightarrow> (case stack of [] \<Rightarrow> render cmds m [] | m' # stack' \<Rightarrow> render cmds m' stack')
      | SetTransform a b c d e f \<Rightarrow> render cmds (moved m a b c d e f) stack
      | Scale kx ky \<Rightarrow>
          (case m of (a, b, c, d, e, f) \<Rightarrow> render cmds (a * kx, b * kx, c * ky, d * ky, e, f) stack)
      | DrawImage img dx dy dw dh \<Rightarrow> drawn m img dx dy dw dh @ render cmds m stack
      | DrawImageSub img sx sy sw sh dx dy dw dh \<Rightarrow>
          (if sx = None \<or> sy = None \<or> sw = None \<or> sh = None then []
           else drawn m img dx dy dw dh) @ render cmds m stack
      | _ \<Rightarrow> render cmds m stack)"

subsection \<open>Game loop\<close>

text \<open>\<open>update\<close>, lines 650--656.\<close>

definition update :: "real \<Rightarrow> state \<Rightarrow> state" where
  "update deltaTime s = updateCamera s"

text \<open>The callback \<open>gameLoop\<close> of \<open>startGameLoop\<close>, lines 634--645. \<open>1000 / 0\<close> is
  \<open>Infinity\<close>, which no elapsed time reaches.\<close>

definition gameLoop :: "real \<Rightarrow> state \<Rightarrow> effect list \<times> state" where
  "gameLoop currentTime s =
     (let deltaTime = currentTime - lastFrameTime s;
          due = (if targetFPS s = 0 then False
                 else let targetFrameTime = 1000 / targetFPS s in deltaTime \<ge> targetFrameTime)
      in if due
         then
           let s1 = update deltaTime s
           in ([Frame (draw s1), RequestAnimationFrame], s1\<lparr>lastFrameTime := currentTime\<rparr>)
         else ([RequestAnimationFrame], s))"

subsection \<open>The client as a transition system\<close>

text \<open>The state the constructor leaves (lines 382--409), for a window of the given inner
  size: the world image is requested, the socket is connecting.\<close>

definition constructor :: "real \<Rightarrow> real \<Rightarrow> state" where
  "constructor innerWidth innerHeight =
     \<lparr>canvas_width = innerWidth, canvas_height = innerHeight,
      worldImage = Some (newImage ''world.jpg''),
      worldWidth = 2048, worldHeight = 2048,
      myPlayerId = None, players = [], avatars = [],
      websocket = Some CONNECTING,
      cameraX = Some 0, cameraY = Some 0,
      keysPressed = {}, isMoving = False, clickTarget = None,
      connectionStatus = connecting, lastFrameTime = 0, targetFPS = 60\<rparr>"

text \<open>\<open>joinGame\<close>, lines 468--475.\<close>

definition joinGame :: "state \<Rightarrow> result" where
  "joinGame s =
     (case ws_send (websocket s) (Join_game ''Biraj'') of
        Inl e \<Rightarrow> Inl (e, s)
      | Inr out \<Rightarrow> Inr (out, s))"

text \<open>The callbacks the client registers: the socket's \<open>onopen\<close>, \<open>onmessage\<close>,
  \<open>onclose\<close> and \<open>onerror\<close> (lines 447--462), the window's \<open>resize\<close> (lines 425--429),
  the key and click listeners, the animation frame and the homing timer.\<close>

datatype event =
    SocketOpen
  | SocketMessage message
  | SocketClose
  | SocketError
  | Resize real real
  | KeyDown string
  | KeyUp string
  | Click real real real real
  | AnimationFrame real
  | HomingTimer
  | ImageLoad "string \<Rightarrow> (nat \<times> nat) option"

text \<open>The browser finishes loading images: an image whose data has the natural size
  \<open>(w, h)\<close> gets that size. The \<open>onload\<close> callbacks themselves are empty (lines 434 and
  710).\<close>

definition load :: "(string \<Rightarrow> (nat \<times> nat) option) \<Rightarrow> image \<Rightarrow> image" where
  "load sizes img =
     (case sizes (img_src img) of
        None \<Rightarrow> img
      | Some (w, h) \<Rightarrow> img\<lparr>img_width := w, img_height := h\<rparr>)"

definition load_avatar :: "(string \<Rightarrow> (nat \<times> nat) option) \<Rightarrow> avatar \<Rightarrow> avatar" where
  "load_avatar sizes a =
     a\<lparr>parsedFrames :=
         map_option
           (\<lambda>fs. \<lparr>north = map (load sizes) (north fs),
                  south = map (load sizes) (south fs),
                  east = map (load sizes) (east fs)\<rparr>)
           (parsedFrames a)\<rparr>"

text \<open>The state after a callback has run. The browser opens a socket only from
  connecting, delivers a message only while the socket is open, and has set the socket's
  \<open>readyState\<close> before it calls \<open>onopen\<close> or \<open>onclose\<close>. A callback that throws leaves
  the state as it was when it threw.\<close>

definition after :: "result \<Rightarrow> state" where
  "after r = (case r of Inl (e, s) \<Rightarrow> s | Inr (out, s) \<Rightarrow> s)"

fun fire :: "event \<Rightarrow> state \<Rightarrow> state" where
  "fire SocketOpen s =
     (if websocket s = Some CONNECTING
      then after (joinGame (s\<lparr>websocket := Some OPEN, connectionStatus := connected\<rparr>))
      else s)"
| "fire (SocketMessage m) s =
     (if websocket s = Some OPEN then snd (handleServerMessage m s) else s)"
| "fire SocketClose s = s\<lparr>websocket := Some CLOSED, connectionStatus := disconnected\<rparr>"
| "fire SocketError s = s\<lparr>connectionStatus := error\<rparr>"
| "fire (Resize innerWidth innerHeight) s =
     updateCamera (s\<lparr>canvas_width := innerWidth, canvas_height := innerHeight\<rparr>)"
| "fire (KeyDown code) s = snd (handleKeyDown code s)"
| "fire (KeyUp code) s = snd (handleKeyUp code s)"
| "fire (Click clientX clientY rect_left rect_top) s =
     after (handleCanvasClick clientX clientY rect_left rect_top s)"
| "fire (AnimationFrame currentTime) s = snd (gameLoop currentTime s)"
| "fire HomingTimer s = after (startMovingToTarget s)"
| "fire (ImageLoad sizes) s =
     s\<lparr>worldImage := map_option (load sizes) (worldImage s),
       avatars := map (\<lambda>(avatarName, a). (avatarName, load_avatar sizes a)) (avatars s)\<rparr>"

text \<open>The state after a sequence of callbacks, the first of the list first.\<close>

fun run :: "event list \<Rightarrow> state \<Rightarrow> state" where
  "run [] s = s"
| "run (ev # evs) s = run evs (fire ev s)"

subsection \<open>Measures and concrete inputs\<close>

text \<open>How many frames the effects of a callback hold: one per \<open>draw()\<close>; and the messages
  that left through the socket.\<close>

definition frames_drawn :: "effect list \<Rightarrow> nat" where
  "frames_drawn out = length (filter (\<lambda>e. case e of Frame _ \<Rightarrow> True | _ \<Rightarrow> False) out)"

definition sent :: "effect list \<Rightarrow> effect list" where
  "sent out = filter (\<lambda>e. case e of Sent _ \<Rightarrow> True | _ \<Rightarrow> False) out"

definition me :: player where
  "me = \<lparr>p_id = ''me'', p_x = 100, p_y = 1900, p_facing = South,
         p_animationFrame = 0, p_username = ''Biraj'', p_avatar = ''fox''\<rparr>"

definition other :: player where
  "other = \<lparr>p_id = ''other'', p_x = 500, p_y = 500, p_facing = West,
            p_animationFrame = 1, p_username = ''Ann'', p_avatar = ''fox''\<rparr>"

text \<open>A client in a window of the given size that has joined a game of two players.\<close>

definition joined :: "real \<Rightarrow> real \<Rightarrow> state" where
  "joined w h =
     (constructor w h)\<lparr>myPlayerId := Some ''me'',
       players := [(''me'', me), (''other'', other)],
       websocket := Some OPEN, connectionStatus := connected\<rparr>"


text \<open>The click target, when there is one, lies in the world
  (\<open>0 <= x && x <= worldWidth && 0 <= y && y <= worldHeight\<close>); each of its coordinates does,
  or is \<open>NaN\<close>; the world has the size the constructor gave it; two states agree on the
  world's size and on the click target; the socket exists, and no player id is set while
  it is connecting.\<close>

definition target_in_world :: "state \<Rightarrow> bool" where
  "target_in_world s =
     (case clickTarget s of
        None \<Rightarrow> True
      | Some target \<Rightarrow>
          num_le (Some 0) (fst target) \<and> num_le (fst target) (Some (worldWidth s)) \<and>
          num_le (Some 0) (snd target) \<and> num_le (snd target) (Some (worldHeight s)))"

definition nan_or_within :: "number \<Rightarrow> real \<Rightarrow> bool" where
  "nan_or_within a hi = (case a of None \<Rightarrow> True | Some x \<Rightarrow> 0 \<le> x \<and> x \<le> hi)"

definition target_in_world_or_nan :: "state \<Rightarrow> bool" where
  "target_in_world_or_nan s =
     (case clickTarget s of
        None \<Rightarrow> True
      | Some target \<Rightarrow> nan_or_within (fst target) (worldWidth s) \<and> nan_or_within (snd target) (worldHeight s))"

definition world_size :: "state \<Rightarrow> bool" where
  "world_size s = (worldWidth s = 2048 \<and> worldHeight s = 2048)"

definition same_world :: "state \<Rightarrow> state \<Rightarrow> bool" where
  "same_world s s' =
     (worldWidth s' = worldWidth s \<and> worldHeight s' = worldHeight s \<and>
      clickTarget s' = clickTarget s)"

definition socket_ok :: "state \<Rightarrow> bool" where
  "socket_ok s =
     (websocket s \<noteq> None \<and> (if websocket s = Some CONNECTING then myPlayerId s = None else True))"

text \<open>An avatar definition as a message carries it, and the same avatar with the frames
  \<open>parseAvatarImages\<close> gives it.\<close>

definition fox :: avatar where
  "fox = \<lparr>a_name = ''fox'',
          frames = \<lparr>north = [''n0'', ''n1''], south = [''s0''], east = [''e0'', ''e1'']\<rparr>,
          parsedFrames = None\<rparr>"

definition decoding :: "avatar \<Rightarrow> avatar" where
  "decoding a =
     a\<lparr>parsedFrames :=
         Some \<lparr>north = map newImage (north (frames a)),
               south = map newImage (south (frames a)),
               east = map newImage (east (frames a))\<rparr>\<rparr>"


definition join_ok :: message where
  "join_ok = JoinGame True ''me'' [(''me'', me), (''other'', other)] [(''fox'', fox)] []"

text \<open>A run of the client: the socket opens, the join succeeds, the user clicks 600 units
  to the right of the player, the connection drops.\<close>

definition awaiting :: state where
  "awaiting = run [SocketOpen] (constructor 800 600)"


definition homing :: state where
  "homing = run [SocketOpen, SocketMessage join_ok, Click 700 100 0 0] (constructor 800 600)"

definition dropped :: state where
  "dropped =
     run [SocketOpen, SocketMessage join_ok, Click 700 100 0 0, SocketClose]
       (constructor 800 600)"

text \<open>Another run: the user clicks to the left, the server moves the player to within 20
  units of the target, the connection drops.\<close>

definition arrived :: state where
  "arrived =
     run [SocketOpen, SocketMessage join_ok, Click 10 457 0 0,
          SocketMessage (PlayersMoved [(''me'', me\<lparr>p_x := 20\<rparr>)])]
       (constructor 800 600)"

definition arriving :: state where
  "arriving =
     run [SocketOpen, SocketMessage join_ok, Click 10 457 0 0,
          SocketMessage (PlayersMoved [(''me'', me\<lparr>p_x := 20\<rparr>)]), SocketClose]
       (constructor 800 600)"

text \<open>A click far outside the world, to the right of it and above it.\<close>

definition far_click :: state where
  "far_click =
     run [SocketOpen, SocketMessage join_ok, Click 5000 (- 2000) 0 0] (constructor 800 600)"

text \<open>A target within 20 units of the local player, and one 600 units to its right.\<close>

definition near_target :: state where
  "near_target = (joined 800 600)\<lparr>clickTarget := Some (Some 110, Some 1905)\<rparr>"

definition far_target :: state where
  "far_target = (joined 800 600)\<lparr>clickTarget := Some (Some 700, Some 1900)\<rparr>"

text \<open>A third run: the join puts the local player near the top left corner of the world,
  so that the camera is at the origin, and every frame of the avatar loads at 64 by 32
  pixels; the player \<open>other\<close> stands at (500, 500) and faces west.\<close>

definition sizes :: "string \<Rightarrow> (nat \<times> nat) option" where
  "sizes src = (if src = ''world.jpg'' then Some (2048, 2048) else Some (64, 32))"

definition scene :: state where
  "scene =
     run [SocketOpen,
          SocketMessage
            (JoinGame True ''me'' [(''me'', me\<lparr>p_y := 100\<rparr>), (''other'', other)]
               [(''fox'', fox)] []),
          ImageLoad sizes]
       (constructor 800 600)"

text \<open>A fourth run: the server answers the join with the player id \<open>constructor\<close>, which
  is no id of the roster it sends; then the user clicks.\<close>

definition join_stranger :: message where
  "join_stranger =
     JoinGame True ''constructor'' [(''me'', me), (''other'', other)] [(''fox'', fox)] []"

definition astray :: state where
  "astray = run [SocketOpen, SocketMessage join_stranger] (constructor 800 600)"

definition astray_click :: state where
  "astray_click =
     run [SocketOpen, SocketMessage join_stranger, Click 10 10 0 0] (constructor 800 600)"

text \<open>The state in which the handler of that join calls \<open>updateCamera\<close> (line 667).\<close>

definition stranger :: state where
  "stranger =
     awaiting\<lparr>myPlayerId := Some ''constructor'',
       players := [(''me'', me), (''other'', other)],
       avatars := [(''fox'', decoding fox)]\<rparr>"

section \<open>Theorems\<close>

lemma updateCamera_frame:
  "canvas_width (updateCamera s) = canvas_width s"
  "canvas_height (updateCamera s) = canvas_height s"
  "worldWidth (updateCamera s) = worldWidth s"
  "worldHeight (updateCamera s) = worldHeight s"
  "myPlayerId (updateCamera s) = myPlayerId s"
  "players (updateCamera s) = players s"
  "avatars (updateCamera s) = avatars s"
  "websocket (updateCamera s) = websocket s"
  "clickTarget (updateCamera s) = clickTarget s"
  "connectionStatus (updateCamera s) = connectionStatus s"
  "lastFrameTime (updateCamera s) = lastFrameTime s"
  "targetFPS (updateCamera s) = targetFPS s"
  "isMoving (updateCamera s) = isMoving s"
  "keysPressed (updateCamera s) = keysPressed s"
  "worldImage (updateCamera s) = worldImage s"
  by (simp_all add: updateCamera_def Let_def)

subsection \<open>Evaluation\<close>

lemma sqrt_less_20: "sqrt x < 20 \<longleftrightarrow> x < 400"
proof -
  have "sqrt 400 = 20" by (rule real_sqrt_unique) simp_all
  then show ?thesis using real_sqrt_less_iff [of x 400] by simp
qed

lemma num_lt_sqrt_20: "num_lt (math_sqrt e) (Some 20) = num_lt e (Some 400)"
  by (cases e) (simp_all add: math_sqrt_def sqrt_less_20)

text \<open>The distance test of the homing step without the square root, for evaluation.\<close>

lemma startMovingToTarget_code [code]:
  "startMovingToTarget s =
     (case clickTarget s of
        None \<Rightarrow> Inr ([], s)
      | Some target \<Rightarrow>
          if myPlayer s = Absent then Inr ([], s)
          else
            let deltaX = num_sub (fst target) (member_x (myPlayer s));
                deltaY = num_sub (snd target) (member_y (myPlayer s))
            in if num_lt (num_add (num_mul deltaX deltaX) (num_mul deltaY deltaY)) (Some 400)
               then Inr (sendStopCommand (s\<lparr>clickTarget := None\<rparr>))
               else
                 let direction =
                       (if num_gt (math_abs deltaX) (math_abs deltaY)
                        then (if num_gt deltaX (Some 0) then Right else Left)
                        else (if num_gt deltaY (Some 0) then Down else Up))
                 in (case ws_send (websocket s) (Move direction) of
                       Inl e \<Rightarrow> Inl (e, s)
                     | Inr out \<Rightarrow> Inr (out @ [SetTimeout 200], s\<lparr>isMoving := True\<rparr>)))"
  by (simp add: startMovingToTarget_def num_lt_sqrt_20 Let_def split: option.splits)

lemmas eval_defs =
  constructor_def joinGame_def ws_send_def after_def parseAvatarImages_def parseAvatar_def
  decodes_def newImage_def updateCamera_def myPlayer_def lookup_def object_prototype_def
  handleCanvasClick_def sendClickMoveCommand_def startMovingToTarget_def not_open_def
  sendStopCommand_def sendMoveCommand_def me_def other_def fox_def join_ok_def Let_def
  num_lt_sqrt_20 num_add_def num_sub_def num_mul_def math_min_def math_max_def math_abs_def
  num_gt_def


lemma homing_eq:
  "homing = (joined 800 600)\<lparr>avatars := [(''fox'', decoding fox)], cameraY := Some 1448,
     isMoving := True, clickTarget := Some (Some 700, Some 1548)\<rparr>"
  by (simp add: homing_def eval_defs joined_def decoding_def)

lemma dropped_eq:
  "dropped = (joined 800 600)\<lparr>avatars := [(''fox'', decoding fox)], cameraY := Some 1448,
     isMoving := True, clickTarget := Some (Some 700, Some 1548), websocket := Some CLOSED,
     connectionStatus := disconnected\<rparr>"
  by (simp add: dropped_def eval_defs joined_def decoding_def)

lemma arrived_eq:
  "arrived = (joined 800 600)\<lparr>players := [(''me'', me\<lparr>p_x := 20\<rparr>), (''other'', other)],
     avatars := [(''fox'', decoding fox)], cameraY := Some 1448,
     isMoving := True, clickTarget := Some (Some 10, Some 1905)\<rparr>"
  by (simp add: arrived_def eval_defs joined_def decoding_def object_assign_def)

lemma arriving_eq:
  "arriving = (joined 800 600)\<lparr>players := [(''me'', me\<lparr>p_x := 20\<rparr>), (''other'', other)],
     avatars := [(''fox'', decoding fox)], cameraY := Some 1448,
     isMoving := True, clickTarget := Some (Some 10, Some 1905), websocket := Some CLOSED,
     connectionStatus := disconnected\<rparr>"
  by (simp add: arriving_def eval_defs joined_def decoding_def object_assign_def)

lemma scene_eq:
  "scene = (joined 800 600)\<lparr>players := [(''me'', me\<lparr>p_y := 100\<rparr>), (''other'', other)],
     avatars := [(''fox'', load_avatar sizes (decoding fox))],
     worldImage := Some \<lparr>img_src = ''world.jpg'', img_width = 2048, img_height = 2048\<rparr>\<rparr>"
  by (simp add: scene_def eval_defs joined_def decoding_def load_avatar_def load_def sizes_def)

lemma astray_eq:
  "astray = (joined 800 600)\<lparr>myPlayerId := Some ''constructor'',
     avatars := [(''fox'', decoding fox)], cameraX := None, cameraY := None\<rparr>"
  by (simp add: astray_def join_stranger_def eval_defs joined_def decoding_def)

lemma astray_click_eq:
  "astray_click = (joined 800 600)\<lparr>myPlayerId := Some ''constructor'',
     avatars := [(''fox'', decoding fox)], cameraX := None, cameraY := None,
     isMoving := True, clickTarget := Some (None, None)\<rparr>"
  by (simp add: astray_click_def join_stranger_def eval_defs joined_def decoding_def)

lemma stranger_eq:
  "stranger = (joined 800 600)\<lparr>myPlayerId := Some ''constructor'',
     avatars := [(''fox'', decoding fox)]\<rparr>"
  by (simp add: stranger_def awaiting_def eval_defs joined_def)

subsection \<open>The socket of a running client\<close>

text \<open>The socket exists in every state the client reaches from its constructor, and while
  it is still connecting no join has been handled, so a client that has a local player has
  a socket that is open, closing or closed.\<close>

lemma after_Inr: "after (Inr (out, s)) = s"
  by (simp add: after_def)

lemma after_joinGame: "after (joinGame s) = s"
  by (simp add: joinGame_def after_def split: sum.splits)

lemma handleServerMessage_frame:
  "worldWidth (snd (handleServerMessage m s)) = worldWidth s"
  "worldHeight (snd (handleServerMessage m s)) = worldHeight s"
  "websocket (snd (handleServerMessage m s)) = websocket s"
  "clickTarget (snd (handleServerMessage m s)) = clickTarget s"
  by (cases m; simp add: parseAvatarImages_def updateCamera_frame split: prod.splits)+

lemma handleKeyDown_frame:
  "worldWidth (snd (handleKeyDown code s)) = worldWidth s"
  "worldHeight (snd (handleKeyDown code s)) = worldHeight s"
  "websocket (snd (handleKeyDown code s)) = websocket s"
  "clickTarget (snd (handleKeyDown code s)) = clickTarget s"
  "myPlayerId (snd (handleKeyDown code s)) = myPlayerId s"
  by (simp_all add: handleKeyDown_def sendMoveCommand_def not_open_def Let_def)

lemma handleKeyUp_frame:
  "worldWidth (snd (handleKeyUp code s)) = worldWidth s"
  "worldHeight (snd (handleKeyUp code s)) = worldHeight s"
  "websocket (snd (handleKeyUp code s)) = websocket s"
  "clickTarget (snd (handleKeyUp code s)) = clickTarget s"
  "myPlayerId (snd (handleKeyUp code s)) = myPlayerId s"
  by (simp_all add: handleKeyUp_def sendStopCommand_def not_open_def Let_def)

lemma gameLoop_frame:
  "worldWidth (snd (gameLoop t s)) = worldWidth s"
  "worldHeight (snd (gameLoop t s)) = worldHeight s"
  "websocket (snd (gameLoop t s)) = websocket s"
  "clickTarget (snd (gameLoop t s)) = clickTarget s"
  "myPlayerId (snd (gameLoop t s)) = myPlayerId s"
  by (simp_all add: gameLoop_def update_def updateCamera_frame Let_def)

lemma startMovingToTarget_frame:
  "worldWidth (after (startMovingToTarget s)) = worldWidth s"
  "worldHeight (after (startMovingToTarget s)) = worldHeight s"
  "websocket (after (startMovingToTarget s)) = websocket s"
  "myPlayerId (after (startMovingToTarget s)) = myPlayerId s"
  "clickTarget (after (startMovingToTarget s)) = None \<or>
   clickTarget (after (startMovingToTarget s)) = clickTarget s"
  by (auto simp: startMovingToTarget_def after_def sendStopCommand_def ws_send_def Let_def
      split: option.splits readyState.splits prod.splits)

lemma handleCanvasClick_frame:
  "worldWidth (after (handleCanvasClick cx cy l t s)) = worldWidth s"
  "worldHeight (after (handleCanvasClick cx cy l t s)) = worldHeight s"
  "websocket (after (handleCanvasClick cx cy l t s)) = websocket s"
  "myPlayerId (after (handleCanvasClick cx cy l t s)) = myPlayerId s"
  by (simp_all add: handleCanvasClick_def sendClickMoveCommand_def startMovingToTarget_frame
      after_Inr Let_def)

lemma socket_ok_fire: "socket_ok s \<Longrightarrow> socket_ok (fire ev s)"
  by (cases ev)
    (auto simp: socket_ok_def after_joinGame handleServerMessage_frame handleKeyDown_frame
      handleKeyUp_frame gameLoop_frame startMovingToTarget_frame handleCanvasClick_frame
      updateCamera_frame)

lemma socket_ok_run: "socket_ok s \<Longrightarrow> socket_ok (run evs s)"
  by (induction evs arbitrary: s) (simp_all add: socket_ok_fire)

lemma socket_ok_reached: "socket_ok (run evs (constructor innerWidth innerHeight))"
  by (rule socket_ok_run) (simp add: socket_ok_def constructor_def)

lemma local_player_socket:
  assumes "socket_ok s" "myPlayer s \<noteq> Absent"
  shows "websocket s = Some OPEN \<or> websocket s = Some CLOSING \<or> websocket s = Some CLOSED"
proof -
  have "myPlayerId s \<noteq> None"
    using assms(2) by (auto simp: myPlayer_def split: option.splits)
  then have "websocket s \<noteq> None" "websocket s \<noteq> Some CONNECTING"
    using assms(1) by (auto simp: socket_ok_def split: if_splits)
  then show ?thesis
    by (cases "websocket s") (auto intro: readyState.exhaust)
qed

subsection \<open>Camera\<close>

text \<open>C1. With a local player present, \<open>updateCamera\<close> centres the camera on the player
  and clamps each axis into \<open>[0, world - viewport]\<close> exactly when the world is larger than
  the viewport on that axis; an axis on which it is not is left at
  \<open>player - viewport / 2\<close>. The local player is an entry of the roster itself, whose
  coordinates are numbers.\<close>

theorem updateCamera_centers_and_clamps:
  "myPlayer s = Own p \<Longrightarrow>
     cameraX (updateCamera s) =
       Some (if worldWidth s > canvas_width s
             then max 0 (min (p_x p - canvas_width s / 2) (worldWidth s - canvas_width s))
             else p_x p - canvas_width s / 2) \<and>
     cameraY (updateCamera s) =
       Some (if worldHeight s > canvas_height s
             then max 0 (min (p_y p - canvas_height s / 2) (worldHeight s - canvas_height s))
             else p_y p - canvas_height s / 2) \<and>
     (worldWidth s > canvas_width s \<longrightarrow>
        num_le (Some 0) (cameraX (updateCamera s)) \<and>
        num_le (cameraX (updateCamera s)) (Some (worldWidth s - canvas_width s))) \<and>
     (worldHeight s > canvas_height s \<longrightarrow>
        num_le (Some 0) (cameraY (updateCamera s)) \<and>
        num_le (cameraY (updateCamera s)) (Some (worldHeight s - canvas_height s))) \<and>
     (worldWidth s \<le> canvas_width s \<longrightarrow>
        cameraX (updateCamera s) = Some (p_x p - canvas_width s / 2)) \<and>
     (worldHeight s \<le> canvas_height s \<longrightarrow>
        cameraY (updateCamera s) = Some (p_y p - canvas_height s / 2))"
  by (simp add: updateCamera_def Let_def num_sub_def math_max_def math_min_def)

theorem updateCamera_centers_and_clamps_witness:
  "myPlayer (joined 800 3000) = Own me \<and>
   worldWidth (joined 800 3000) > canvas_width (joined 800 3000) \<and>
   worldHeight (joined 800 3000) \<le> canvas_height (joined 800 3000) \<and>
   cameraX (updateCamera (joined 800 3000)) = Some 0 \<and>
   cameraY (updateCamera (joined 800 3000)) = Some 400 \<and>
   myPlayer (joined 3000 600) = Own me \<and>
   worldWidth (joined 3000 600) \<le> canvas_width (joined 3000 600) \<and>
   worldHeight (joined 3000 600) > canvas_height (joined 3000 600) \<and>
   cameraX (updateCamera (joined 3000 600)) = Some (- 1400) \<and>
   cameraY (updateCamera (joined 3000 600)) = Some 1448"
proof -
  have a: "myPlayer (joined 800 3000) = Own me" and b: "myPlayer (joined 3000 600) = Own me"
    by (simp_all add: myPlayer_def lookup_def joined_def constructor_def)
  show ?thesis
    using updateCamera_centers_and_clamps [OF a] updateCamera_centers_and_clamps [OF b] a b
    by (simp add: joined_def constructor_def me_def)
qed

text \<open>Without a local player, that is with the id unset or empty, or with an id that names
  neither an entry of the roster nor a member of \<open>Object.prototype\<close>, \<open>updateCamera\<close>
  returns the state as it was.\<close>

theorem updateCamera_no_local_player:
  "myPlayerId s = None \<or> myPlayerId s = Some [] \<or>
     (\<exists>i. myPlayerId s = Some i \<and> map_of (players s) i = None \<and> i \<notin> set object_prototype) \<Longrightarrow>
   updateCamera s = s"
  by (auto simp: updateCamera_def myPlayer_def lookup_def split: option.splits)

theorem updateCamera_no_local_player_witness:
  "myPlayerId (constructor 800 600) = None \<and>
   updateCamera (constructor 800 600) = constructor 800 600 \<and>
   myPlayerId (stranger\<lparr>myPlayerId := Some ''ghost''\<rparr>) = Some ''ghost'' \<and>
   map_of (players (stranger\<lparr>myPlayerId := Some ''ghost''\<rparr>)) ''ghost'' = None \<and>
   ''ghost'' \<notin> set object_prototype \<and>
   updateCamera (stranger\<lparr>myPlayerId := Some ''ghost''\<rparr>)
     = stranger\<lparr>myPlayerId := Some ''ghost''\<rparr>"
proof -
  let ?g = "stranger\<lparr>myPlayerId := Some ''ghost''\<rparr>"
  have a: "myPlayerId (constructor 800 600) = None" by (simp add: constructor_def)
  have b: "myPlayerId ?g = Some ''ghost''" "map_of (players ?g) ''ghost'' = None"
      "''ghost'' \<notin> set object_prototype"
    by (simp_all add: stranger_eq joined_def object_prototype_def)
  show ?thesis
    using updateCamera_no_local_player [where s = "constructor 800 600"]
      updateCamera_no_local_player [where s = ?g] a b
    by simp
qed

text \<open>C9. The guard of \<open>updateCamera\<close> (line 722) reads
  \<open>this.players[this.myPlayerId]\<close>, which also finds what the roster inherits from
  \<open>Object.prototype\<close>. After a join whose player id is \<open>constructor\<close> and whose roster has
  no player of that id, the local player is not resolvable, yet the guard passes and the
  camera, (0, 0) before the call, is overwritten with NaN on both axes.\<close>

theorem updateCamera_inherited_member:
  "astray = run [SocketOpen, SocketMessage join_stranger] (constructor 800 600) \<and>
   myPlayerId stranger = Some ''constructor'' \<and>
   map_of (players stranger) ''constructor'' = None \<and>
   cameraX stranger = Some 0 \<and> cameraY stranger = Some 0 \<and>
   cameraX (updateCamera stranger) = None \<and> cameraY (updateCamera stranger) = None \<and>
   updateCamera stranger = astray"
  by (rule conjI [OF astray_def]) (simp add: stranger_eq astray_eq joined_def eval_defs)

subsection \<open>Roster\<close>




subsection \<open>Game loop\<close>

text \<open>C4. A tick of the game loop whose time is less than the frame interval
  \<open>1000 / targetFPS\<close> after the last drawn frame draws no frame and leaves the state, and so
  the time of the last frame, as it was; a tick at or after the interval runs one
  \<open>update\<close> and one \<open>draw\<close> and sets the time of the last frame to the tick's time.\<close>

theorem gameLoop_throttle:
  "targetFPS s \<noteq> 0 \<Longrightarrow>
   (currentTime - lastFrameTime s < 1000 / targetFPS s \<longrightarrow>
      frames_drawn (fst (gameLoop currentTime s)) = 0 \<and>
      gameLoop currentTime s = ([RequestAnimationFrame], s)) \<and>
   (currentTime - lastFrameTime s \<ge> 1000 / targetFPS s \<longrightarrow>
      frames_drawn (fst (gameLoop currentTime s)) = 1 \<and>
      lastFrameTime (snd (gameLoop currentTime s)) = currentTime \<and>
      gameLoop currentTime s =
        ([Frame (draw (update (currentTime - lastFrameTime s) s)), RequestAnimationFrame],
         (update (currentTime - lastFrameTime s) s)\<lparr>lastFrameTime := currentTime\<rparr>))"
  by (simp add: gameLoop_def frames_drawn_def Let_def)

theorem gameLoop_throttle_witness:
  "targetFPS (constructor 800 600) \<noteq> 0 \<and>
   (10 - lastFrameTime (constructor 800 600) < 1000 / targetFPS (constructor 800 600)) \<and>
   gameLoop 10 (constructor 800 600) = ([RequestAnimationFrame], constructor 800 600) \<and>
   (20 - lastFrameTime (constructor 800 600) \<ge> 1000 / targetFPS (constructor 800 600)) \<and>
   frames_drawn (fst (gameLoop 20 (constructor 800 600))) = 1 \<and>
   lastFrameTime (snd (gameLoop 20 (constructor 800 600))) = 20"
  using gameLoop_throttle [of "constructor 800 600" 10]
    gameLoop_throttle [of "constructor 800 600" 20]
  by (simp add: constructor_def frames_drawn_def)

subsection \<open>Click-to-move\<close>

text \<open>C5. A homing step of a running client with a click target set and a local player
  present. If the distance from the player to the target is less than 20, the target is
  cleared and the stop command is emitted through \<open>sendStopCommand\<close>, which transmits it
  when the socket is open and drops it otherwise; no timer is set. Otherwise exactly one
  move command is handed to the socket, in the direction of the dominant axis of the delta
  (right or left if \<open>|dx| > |dy|\<close>, else down or up), transmitted when the socket is open
  and discarded by it otherwise, and the step is set to run again after 200 ms.\<close>

theorem homing_step:
  "s = run evs (constructor innerWidth innerHeight) \<Longrightarrow>
   clickTarget s = Some (tx, ty) \<Longrightarrow> myPlayer s = Own p \<Longrightarrow>
   deltaX = num_sub tx (Some (p_x p)) \<Longrightarrow> deltaY = num_sub ty (Some (p_y p)) \<Longrightarrow>
   distance = math_sqrt (num_add (num_mul deltaX deltaX) (num_mul deltaY deltaY)) \<Longrightarrow>
   direction =
     (if num_gt (math_abs deltaX) (math_abs deltaY)
      then (if num_gt deltaX (Some 0) then Right else Left)
      else (if num_gt deltaY (Some 0) then Down else Up)) \<Longrightarrow>
   (num_lt distance (Some 20) \<longrightarrow>
      startMovingToTarget s = Inr (sendStopCommand (s\<lparr>clickTarget := None\<rparr>)) \<and>
      sendStopCommand (s\<lparr>clickTarget := None\<rparr>) =
        (if websocket s = Some OPEN
         then ([Sent Stop], s\<lparr>clickTarget := None, isMoving := False\<rparr>)
         else ([], s\<lparr>clickTarget := None\<rparr>))) \<and>
   (\<not> num_lt distance (Some 20) \<longrightarrow>
      ws_send (websocket s) (Move direction) =
        Inr (if websocket s = Some OPEN then [Sent (Move direction)] else []) \<and>
      startMovingToTarget s =
        Inr ((if websocket s = Some OPEN then [Sent (Move direction)] else []) @ [SetTimeout 200],
             s\<lparr>isMoving := True\<rparr>))"
proof -
  assume s: "s = run evs (constructor innerWidth innerHeight)"
    and t: "clickTarget s = Some (tx, ty)" and p: "myPlayer s = Own p"
    and d: "deltaX = num_sub tx (Some (p_x p))" "deltaY = num_sub ty (Some (p_y p))"
      "distance = math_sqrt (num_add (num_mul deltaX deltaX) (num_mul deltaY deltaY))"
      "direction =
        (if num_gt (math_abs deltaX) (math_abs deltaY)
         then (if num_gt deltaX (Some 0) then Right else Left)
         else (if num_gt deltaY (Some 0) then Down else Up))"
  have "socket_ok s" unfolding s by (rule socket_ok_reached)
  then have "websocket s = Some OPEN \<or> websocket s = Some CLOSING \<or> websocket s = Some CLOSED"
    using p by (intro local_player_socket) simp_all
  then show ?thesis
    using t p d
    by (auto simp: startMovingToTarget_def sendStopCommand_def not_open_def ws_send_def Let_def)
qed

theorem homing_step_witness:
  "clickTarget arrived = Some (Some 10, Some 1905) \<and> myPlayer arrived = Own (me\<lparr>p_x := 20\<rparr>) \<and>
   num_lt (math_sqrt (num_add (num_mul (Some (- 10)) (Some (- 10))) (num_mul (Some 5) (Some 5))))
     (Some 20) \<and>
   websocket arrived = Some OPEN \<and>
   startMovingToTarget arrived
     = Inr ([Sent Stop], arrived\<lparr>clickTarget := None, isMoving := False\<rparr>) \<and>
   clickTarget arriving = Some (Some 10, Some 1905) \<and>
   myPlayer arriving = Own (me\<lparr>p_x := 20\<rparr>) \<and>
   websocket arriving = Some CLOSED \<and>
   startMovingToTarget arriving = Inr ([], arriving\<lparr>clickTarget := None\<rparr>) \<and>
   clickTarget homing = Some (Some 700, Some 1548) \<and> myPlayer homing = Own me \<and>
   \<not> num_lt
       (math_sqrt (num_add (num_mul (Some 600) (Some 600)) (num_mul (Some (- 352)) (Some (- 352)))))
       (Some 20) \<and>
   websocket homing = Some OPEN \<and>
   startMovingToTarget homing
     = Inr ([Sent (Move Right), SetTimeout 200], homing\<lparr>isMoving := True\<rparr>) \<and>
   clickTarget dropped = Some (Some 700, Some 1548) \<and> myPlayer dropped = Own me \<and>
   websocket dropped = Some CLOSED \<and>
   startMovingToTarget dropped = Inr ([SetTimeout 200], dropped\<lparr>isMoving := True\<rparr>)"
proof -
  have a: "clickTarget arrived = Some (Some 10, Some 1905)"
      "myPlayer arrived = Own (me\<lparr>p_x := 20\<rparr>)"
    and b: "clickTarget arriving = Some (Some 10, Some 1905)"
      "myPlayer arriving = Own (me\<lparr>p_x := 20\<rparr>)"
    and c: "clickTarget homing = Some (Some 700, Some 1548)" "myPlayer homing = Own me"
    and d: "clickTarget dropped = Some (Some 700, Some 1548)" "myPlayer dropped = Own me"
    by (simp_all add: arrived_eq arriving_eq homing_eq dropped_eq joined_def myPlayer_def
        lookup_def)
  have w: "websocket arrived = Some OPEN" "websocket arriving = Some CLOSED"
      "websocket homing = Some OPEN" "websocket dropped = Some CLOSED"
    by (simp_all add: arrived_eq arriving_eq homing_eq dropped_eq joined_def constructor_def)
  note h = homing_step [OF _ _ _ refl refl refl refl]
  show ?thesis
    using h [OF arrived_def a] h [OF arriving_def b] h [OF homing_def c] h [OF dropped_def d]
      a b c d w
    by (simp add: me_def num_lt_sqrt_20 num_sub_def num_add_def num_mul_def num_gt_def
        math_abs_def sendStopCommand_def not_open_def)
qed

subsection \<open>Sending while the socket is not open\<close>

lemma homing_closed:
  assumes "websocket s = Some CLOSING \<or> websocket s = Some CLOSED"
  shows "startMovingToTarget s \<in>
     {Inr ([], s), Inr ([], s\<lparr>clickTarget := None\<rparr>), Inr ([SetTimeout 200], s\<lparr>isMoving := True\<rparr>)}"
proof -
  have w: "ws_send (websocket s) m = Inr []" for m
    using assms by (auto simp: ws_send_def)
  have n: "sendStopCommand (s\<lparr>clickTarget := None\<rparr>) = ([], s\<lparr>clickTarget := None\<rparr>)"
    using assms by (auto simp: sendStopCommand_def not_open_def)
  show ?thesis
    by (simp add: startMovingToTarget_def w n Let_def split: option.splits)
qed

text \<open>C6. In every state of a running client whose socket is not open, each of the three
  emissions is silent: \<open>sendMoveCommand\<close> and \<open>sendStopCommand\<close> return at their guard
  with the state unchanged, and the homing step transmits nothing, raises no error and
  keeps no message for later: it returns normally, at most clearing the target or setting
  \<open>isMoving\<close> and its own timer. The key handlers transmit nothing either.\<close>

theorem not_open_send_is_silent:
  "s = run evs (constructor innerWidth innerHeight) \<Longrightarrow> websocket s \<noteq> Some OPEN \<Longrightarrow>
   sendMoveCommand s = ([], s) \<and> sendStopCommand s = ([], s) \<and>
   startMovingToTarget s \<in>
     {Inr ([], s), Inr ([], s\<lparr>clickTarget := None\<rparr>), Inr ([SetTimeout 200], s\<lparr>isMoving := True\<rparr>)} \<and>
   (\<exists>out s'. startMovingToTarget s = Inr (out, s') \<and> sent out = []) \<and>
   sent (fst (handleKeyDown code s)) = [] \<and> sent (fst (handleKeyUp code s)) = []"
proof -
  assume s: "s = run evs (constructor innerWidth innerHeight)" and n: "websocket s \<noteq> Some OPEN"
  have ok: "socket_ok s" unfolding s by (rule socket_ok_reached)
  have guards: "sendMoveCommand s = ([], s)" "sendStopCommand s = ([], s)"
    using n by (simp_all add: sendMoveCommand_def sendStopCommand_def not_open_def)
  have keys: "sent (fst (handleKeyDown code s)) = []" "sent (fst (handleKeyUp code s)) = []"
    using n
    by (simp_all add: handleKeyDown_def handleKeyUp_def sendMoveCommand_def sendStopCommand_def
        not_open_def sent_def Let_def)
  have step: "startMovingToTarget s \<in>
     {Inr ([], s), Inr ([], s\<lparr>clickTarget := None\<rparr>), Inr ([SetTimeout 200], s\<lparr>isMoving := True\<rparr>)}"
  proof (cases "myPlayer s = Absent")
    case True
    then show ?thesis by (simp add: startMovingToTarget_def split: option.splits)
  next
    case False
    then have "websocket s = Some CLOSING \<or> websocket s = Some CLOSED"
      using local_player_socket [OF ok] n by auto
    then show ?thesis by (rule homing_closed)
  qed
  have quiet: "\<exists>out s'. startMovingToTarget s = Inr (out, s') \<and> sent out = []"
  proof -
    consider "startMovingToTarget s = Inr ([], s)"
      | "startMovingToTarget s = Inr ([], s\<lparr>clickTarget := None\<rparr>)"
      | "startMovingToTarget s = Inr ([SetTimeout 200], s\<lparr>isMoving := True\<rparr>)"
      using step by blast
    then show ?thesis
    proof cases
      case 1
      then show ?thesis by (intro exI [of _ "[]"] exI [of _ s]) (simp add: sent_def)
    next
      case 2
      then show ?thesis
        by (intro exI [of _ "[]"] exI [of _ "s\<lparr>clickTarget := None\<rparr>"]) (simp add: sent_def)
    next
      case 3
      then show ?thesis
        by (intro exI [of _ "[SetTimeout 200]"] exI [of _ "s\<lparr>isMoving := True\<rparr>"])
          (simp add: sent_def)
    qed
  qed
  show ?thesis
    by (intro conjI guards keys step quiet)
qed

theorem not_open_send_is_silent_witness:
  "websocket dropped \<noteq> Some OPEN \<and>
   sendMoveCommand dropped = ([], dropped) \<and> sendStopCommand dropped = ([], dropped) \<and>
   startMovingToTarget dropped = Inr ([SetTimeout 200], dropped\<lparr>isMoving := True\<rparr>) \<and>
   sent [SetTimeout 200] = [] \<and>
   sent (fst (handleKeyDown ''ArrowUp'' dropped)) = [] \<and>
   sent (fst (handleKeyUp ''ArrowUp'' dropped)) = []"
proof -
  have n: "websocket dropped \<noteq> Some OPEN" by (simp add: dropped_eq)
  have e: "startMovingToTarget dropped = Inr ([SetTimeout 200], dropped\<lparr>isMoving := True\<rparr>)"
    by (simp add: dropped_eq joined_def eval_defs)
  show ?thesis
    using not_open_send_is_silent [OF dropped_def n, of "''ArrowUp''"] n e
    by (simp add: sent_def)
qed

subsection \<open>Keys and departures\<close>

text \<open>A \<open>player_left\<close> for an id the roster does not have changes nothing.\<close>

theorem player_left_unknown:
  "playerId \<notin> fst ` set (players s) \<Longrightarrow> handleServerMessage (PlayerLeft playerId) s = ([], s)"
proof -
  assume "playerId \<notin> fst ` set (players s)"
  then have "AList.delete playerId (players s) = players s"
    by (force simp: AList.delete_eq filter_id_conv)
  then show ?thesis by simp
qed

theorem player_left_unknown_witness:
  "''nobody'' \<notin> fst ` set (players (joined 800 600)) \<and>
   handleServerMessage (PlayerLeft ''nobody'') (joined 800 600) = ([], joined 800 600)"
proof -
  have a: "''nobody'' \<notin> fst ` set (players (joined 800 600))"
    by (simp add: joined_def)
  show ?thesis using player_left_unknown [OF a] a by simp
qed

text \<open>With the socket open and the up and right arrows held, releasing one key sends
  nothing, and releasing the other sends one \<open>stop\<close> and no \<open>move\<close>.\<close>

theorem release_all_keys:
  "websocket s = Some OPEN \<Longrightarrow> keysPressed s = {''ArrowUp'', ''ArrowRight''} \<Longrightarrow>
   handleKeyUp ''ArrowUp'' s = ([], s\<lparr>keysPressed := {''ArrowRight''}\<rparr>) \<and>
   handleKeyUp ''ArrowRight'' (s\<lparr>keysPressed := {''ArrowRight''}\<rparr>)
     = ([Sent Stop], s\<lparr>keysPressed := {}, isMoving := False\<rparr>)"
  by (auto simp: handleKeyUp_def arrow_keys_def sendStopCommand_def not_open_def Let_def)

theorem release_all_keys_witness:
  "websocket ((joined 800 600)\<lparr>keysPressed := {''ArrowUp'', ''ArrowRight''}\<rparr>) = Some OPEN \<and>
   handleKeyUp ''ArrowUp'' ((joined 800 600)\<lparr>keysPressed := {''ArrowUp'', ''ArrowRight''}\<rparr>)
     = ([], (joined 800 600)\<lparr>keysPressed := {''ArrowRight''}\<rparr>) \<and>
   handleKeyUp ''ArrowRight'' ((joined 800 600)\<lparr>keysPressed := {''ArrowRight''}\<rparr>)
     = ([Sent Stop], (joined 800 600)\<lparr>keysPressed := {}, isMoving := False\<rparr>)"
proof -
  let ?s = "(joined 800 600)\<lparr>keysPressed := {''ArrowUp'', ''ArrowRight''}\<rparr>"
  have a: "websocket ?s = Some OPEN" and b: "keysPressed ?s = {''ArrowUp'', ''ArrowRight''}"
    by (simp_all add: joined_def)
  show ?thesis using release_all_keys [OF a b] a by simp
qed

subsection \<open>A rejected join\<close>

text \<open>C7, as amended. Handling a \<open>join_game\<close> message whose \<open>success\<close> is false writes the
  error to the console and changes nothing: the connection status stays what it was, and
  the local player id, the roster, the avatar catalog and the camera are unchanged.\<close>

theorem join_failure_changes_nothing:
  "handleServerMessage (JoinGame False playerId ps avs err) s
     = ([ConsoleError (''Join game failed: '' @ err)], s)"
  by simp

text \<open>The claim as stated fails: the status does not become \<open>error\<close>.\<close>

theorem join_failure_counterexample:
  "connectionStatus awaiting = connected \<and>
   connectionStatus (snd (handleServerMessage (JoinGame False [] [] [] ''name taken'') awaiting))
     \<noteq> error"
  by (simp add: awaiting_def eval_defs)

subsection \<open>Decoding avatars\<close>













subsection \<open>Drawing a player who faces west\<close>

lemma frame_image:
  "avatarSize \<lparr>img_src = src, img_width = 64, img_height = 32\<rparr> = (Some 32, Some 16)"
  by (simp add: avatarSize_def)

lemma scene_screen:
  "worldToScreen scene (Some (p_x other)) (Some (p_y other)) = (Some 500, Some 500)"
  by (simp add: worldToScreen_def scene_eq joined_def constructor_def other_def num_sub_def)

text \<open>In the second revision a visible player who faces west has the frame of the \<open>east\<close>
  set at its animation index, once it has loaded, drawn once, mirrored about the screen
  position \<open>sx\<close> of the player: the left edge of the image is at \<open>sx + w / 2\<close> and its
  right edge at \<open>sx - w / 2\<close>, so the sprite covers \<open>[sx - w / 2, sx + w / 2]\<close>.\<close>

theorem drawAvatar_west_mirrored:
  "p_facing p = West \<Longrightarrow>
   lookup (avatars s) (p_avatar p) = Own a \<Longrightarrow>
   parsedFrames a = Some parsed \<Longrightarrow>
   worldToScreen s (Some (p_x p)) (Some (p_y p)) = (Some sx, Some sy) \<Longrightarrow>
   \<not> off_screen s (Some sx) (Some sy) \<Longrightarrow>
   frame_at (east parsed) (p_animationFrame p) = Some img \<Longrightarrow>
   img_width img \<noteq> 0 \<Longrightarrow> img_height img \<noteq> 0 \<Longrightarrow>
   avatarSize img = (Some w, Some h) \<Longrightarrow>
   render (drawAvatar s p) identity [] =
     [\<lparr>pl_img = img, top_left = (sx + w / 2, sy - h / 2), top_right = (sx - w / 2, sy - h / 2),
       bottom_left = (sx + w / 2, sy + h / 2)\<rparr>]"
  by (simp add: drawAvatar_def drawLabel_def place_def identity_def Let_def num_sub_def
      num_half_def num_neg_def)

theorem drawAvatar_west_mirrored_witness:
  "p_facing other = West \<and>
   worldToScreen scene (Some (p_x other)) (Some (p_y other)) = (Some 500, Some 500) \<and>
   \<not> off_screen scene (Some 500) (Some 500) \<and>
   render (drawAvatar scene other) identity [] =
     [\<lparr>pl_img = \<lparr>img_src = ''e1'', img_width = 64, img_height = 32\<rparr>,
       top_left = (516, 492), top_right = (484, 492), bottom_left = (516, 508)\<rparr>]"
proof -
  let ?a = "load_avatar sizes (decoding fox)"
  let ?img = "\<lparr>img_src = ''e1'', img_width = 64, img_height = 32\<rparr>"
  have 1: "p_facing other = West" by (simp add: other_def)
  have 2: "lookup (avatars scene) (p_avatar other) = Own ?a"
    by (simp add: scene_eq other_def lookup_def)
  obtain parsed where 3: "parsedFrames ?a = Some parsed"
    and 6: "frame_at (east parsed) (p_animationFrame other) = Some ?img"
    by (simp add: load_avatar_def decoding_def fox_def frame_at_def other_def load_def
        newImage_def sizes_def)
  have 5: "\<not> off_screen scene (Some 500) (Some 500)"
    by (simp add: off_screen_def scene_eq joined_def constructor_def num_gt_def)
  have 7: "img_width ?img \<noteq> 0" "img_height ?img \<noteq> 0" by simp_all
  show ?thesis
    using drawAvatar_west_mirrored [OF 1 2 3 scene_screen 5 6 7 frame_image] 1 scene_screen 5
    by simp
qed

lemma drawAvatar_rev3_west: "p_facing p = West \<Longrightarrow> drawAvatar_rev3 s p = []"
  by (simp add: drawAvatar_rev3_def split: option.splits prod.splits member.splits)

text \<open>C3. For the player at (500, 500) who faces west, the camera at the origin, the second
  revision of \<open>drawAvatar\<close> draws the east frame mirrored about screen x = 500, over
  \<open>[484, 516]\<close>; the third revision looks the frames up under \<open>west\<close>, finds none and draws
  nothing.\<close>

theorem drawAvatar_rev3_west_not_drawn:
  "scene =
     run [SocketOpen,
          SocketMessage
            (JoinGame True ''me'' [(''me'', me\<lparr>p_y := 100\<rparr>), (''other'', other)]
               [(''fox'', fox)] []),
          ImageLoad sizes]
       (constructor 800 600) \<and>
   cameraX scene = Some 0 \<and> cameraY scene = Some 0 \<and>
   p_x other = 500 \<and> p_y other = 500 \<and> p_facing other = West \<and>
   drawAvatar_rev3 scene other = [] \<and>
   render (drawAvatar scene other) identity [] =
     [\<lparr>pl_img = \<lparr>img_src = ''e1'', img_width = 64, img_height = 32\<rparr>,
       top_left = (516, 492), top_right = (484, 492), bottom_left = (516, 508)\<rparr>]"
  by (rule conjI [OF scene_def])
    (simp add: drawAvatar_rev3_def drawAvatar_def scene_eq joined_def constructor_def other_def
      load_avatar_def decoding_def fox_def frame_at_def load_def newImage_def worldToScreen_def
      off_screen_def avatarSize_def drawLabel_def place_def identity_def sizes_def Let_def
      lookup_def num_sub_def num_half_def num_neg_def num_gt_def)

subsection \<open>The click target and the world\<close>

text \<open>C10. The canvas-click handler clamps \<open>click + camera\<close> with \<open>Math.max\<close> and
  \<open>Math.min\<close>, which return NaN for a NaN argument. After a join whose player id is
  \<open>constructor\<close> and whose roster has no player of that id, the camera is NaN, so a click
  at (10, 10) stores the target (NaN, NaN) (lines 492--499), which is not within the world
  bounds; the homing step that follows keeps it.\<close>

theorem clickTarget_nan:
  "astray_click =
     run [SocketOpen, SocketMessage join_stranger, Click 10 10 0 0] (constructor 800 600) \<and>
   myPlayerId astray_click = Some ''constructor'' \<and>
   map_of (players astray_click) ''constructor'' = None \<and>
   cameraX astray = None \<and> cameraY astray = None \<and>
   clickTarget astray_click = Some (None, None) \<and>
   \<not> target_in_world astray_click"
  by (rule conjI [OF astray_click_def])
    (simp add: astray_eq astray_click_eq joined_def target_in_world_def)

lemma clamped_within: "0 \<le> hi \<Longrightarrow> nan_or_within (math_max (Some 0) (math_min a (Some hi))) hi"
  by (cases a) (simp_all add: nan_or_within_def math_max_def math_min_def)

lemma startMovingToTarget_invariant:
  "target_in_world_or_nan s \<Longrightarrow> target_in_world_or_nan (after (startMovingToTarget s))"
  using startMovingToTarget_frame [of s]
  by (auto simp: target_in_world_or_nan_def split: option.splits)

lemma handleCanvasClick_invariant:
  assumes "0 \<le> worldWidth s" "0 \<le> worldHeight s"
  shows "target_in_world_or_nan (after (handleCanvasClick cx cy l t s))"
proof -
  let ?x = "math_max (Some 0) (math_min (num_add (Some (cx - l)) (cameraX s)) (Some (worldWidth s)))"
  let ?y = "math_max (Some 0) (math_min (num_add (Some (cy - t)) (cameraY s)) (Some (worldHeight s)))"
  let ?s = "s\<lparr>clickTarget := Some (?x, ?y)\<rparr>"
  have t: "target_in_world_or_nan ?s"
    using assms by (simp add: target_in_world_or_nan_def clamped_within)
  have "after (handleCanvasClick cx cy l t s) = ?s \<or>
        after (handleCanvasClick cx cy l t s) = after (startMovingToTarget ?s)"
    by (simp add: handleCanvasClick_def sendClickMoveCommand_def Let_def after_Inr)
  then show ?thesis
    using t startMovingToTarget_invariant [OF t] by auto
qed

lemma same_world_fire:
  "(\<forall>cx cy l t. ev \<noteq> Click cx cy l t) \<Longrightarrow> ev \<noteq> HomingTimer \<Longrightarrow> same_world s (fire ev s)"
  by (cases ev)
    (simp_all add: same_world_def after_joinGame handleServerMessage_frame handleKeyDown_frame
      handleKeyUp_frame gameLoop_frame updateCamera_frame)

lemma fire_invariant:
  assumes "world_size s" "target_in_world_or_nan s"
  shows "world_size (fire ev s) \<and> target_in_world_or_nan (fire ev s)"
proof -
  consider (click) cx cy l t where "ev = Click cx cy l t" | (timer) "ev = HomingTimer"
    | (other) "(\<forall>cx cy l t. ev \<noteq> Click cx cy l t)" "ev \<noteq> HomingTimer"
    by blast
  then show ?thesis
  proof cases
    case click
    have "0 \<le> worldWidth s" "0 \<le> worldHeight s"
      using assms(1) by (simp_all add: world_size_def)
    then have "target_in_world_or_nan (after (handleCanvasClick cx cy l t s))"
      by (rule handleCanvasClick_invariant)
    then show ?thesis
      using assms(1) click by (simp add: world_size_def handleCanvasClick_frame)
  next
    case timer
    then show ?thesis
      using assms startMovingToTarget_invariant [of s]
      by (simp add: world_size_def startMovingToTarget_frame)
  next
    case other
    then have "same_world s (fire ev s)" by (rule same_world_fire)
    then show ?thesis
      using assms
      by (auto simp: same_world_def world_size_def target_in_world_or_nan_def
          split: option.splits)
  qed
qed

lemma run_invariant:
  "world_size s \<Longrightarrow> target_in_world_or_nan s \<Longrightarrow>
   world_size (run evs s) \<and> target_in_world_or_nan (run evs s)"
proof (induction evs arbitrary: s)
  case Nil
  then show ?case by simp
next
  case (Cons ev evs)
  have "world_size (fire ev s) \<and> target_in_world_or_nan (fire ev s)"
    using Cons.prems by (rule fire_invariant)
  then show ?case using Cons.IH by simp
qed

text \<open>In every state the client reaches from its constructor, through any sequence of
  its callbacks, each coordinate of a click target that is set is either NaN or within the
  world bounds.\<close>

theorem clickTarget_within_world_or_nan:
  "clickTarget (run evs (constructor innerWidth innerHeight)) = Some (tx, ty) \<Longrightarrow>
   nan_or_within tx (worldWidth (run evs (constructor innerWidth innerHeight))) \<and>
   nan_or_within ty (worldHeight (run evs (constructor innerWidth innerHeight)))"
proof -
  have "world_size (constructor innerWidth innerHeight)"
    and "target_in_world_or_nan (constructor innerWidth innerHeight)"
    by (simp_all add: world_size_def target_in_world_or_nan_def constructor_def)
  then have "target_in_world_or_nan (run evs (constructor innerWidth innerHeight))"
    using run_invariant by blast
  then show "clickTarget (run evs (constructor innerWidth innerHeight)) = Some (tx, ty) \<Longrightarrow>
    nan_or_within tx (worldWidth (run evs (constructor innerWidth innerHeight))) \<and>
    nan_or_within ty (worldHeight (run evs (constructor innerWidth innerHeight)))"
    by (simp add: target_in_world_or_nan_def)
qed

theorem clickTarget_within_world_or_nan_witness:
  "clickTarget far_click = Some (Some 2048, Some 0) \<and>
   nan_or_within (Some 2048) (worldWidth far_click) \<and>
   nan_or_within (Some 0) (worldHeight far_click) \<and>
   worldWidth far_click = 2048 \<and> worldHeight far_click = 2048"
proof -
  have c: "clickTarget far_click = Some (Some 2048, Some 0)"
    and w: "worldWidth far_click = 2048 \<and> worldHeight far_click = 2048"
    by (simp_all add: far_click_def eval_defs)
  show ?thesis
    using clickTarget_within_world_or_nan [OF c [unfolded far_click_def]] c w
    by (simp add: far_click_def)
qed

end
